theory Spec2Isabelle
  imports Complex_Main
begin

section \<open>Data model of \<^verbatim>\<open>zerver/lib/drafts.py\<close>\<close>

text \<open>
  Python strings are modelled as \<^typ>\<open>string\<close>. The only character-level operation of the
  module is the test \<^verbatim>\<open>"\0" in topic\<close>; the null character is \<^term>\<open>CHR 0x00\<close>.
\<close>

subsection \<open>Timestamps\<close>

text \<open>
  The \<^verbatim>\<open>timestamp\<close> key holds a Python \<^verbatim>\<open>int\<close> or a Python \<^verbatim>\<open>float\<close>
  (\<^verbatim>\<open>check_union([check_int, check_float])\<close>). An \<^verbatim>\<open>int\<close> is unbounded. A \<^verbatim>\<open>float\<close> is
  a binary64 value of IEEE 754: \<open>Finite x\<close> is the finite float whose exact value is the
  rational \<open>x\<close>, with \<open>Finite 0\<close> for \<^verbatim>\<open>0.0\<close>; \<open>NegZero\<close> is \<^verbatim>\<open>-0.0\<close>; \<open>PosInf\<close>, \<open>NegInf\<close>
  and \<open>NaN\<close> are \<^verbatim>\<open>inf\<close>, \<^verbatim>\<open>-inf\<close> and \<^verbatim>\<open>nan\<close>, which \<^verbatim>\<open>check_float\<close> admits like any other
  float. The finite floats are the rationals \<open>m * 2\<^sup>e\<close> with an integer \<open>m\<close> of magnitude
  below \<open>2\<^sup>5\<^sup>3\<close> and \<open>-1074 \<le> e \<le> 971\<close>. The functions below are defined on every
  rational; what is proved of them for every rational holds for every float.
\<close>

datatype pyfloat = Finite rat | NegZero | PosInf | NegInf | NaN

datatype timestamp = IntTs int | FloatTs pyfloat

text \<open>
  Rounding a number to the nearest integer, ties to the even neighbour: the rule of the
  conversions between floats and decimal strings that Python's \<^verbatim>\<open>round\<close> uses.
\<close>

definition round_half_even :: "rat \<Rightarrow> int" where
  "round_half_even x =
     (let f = \<lfloor>x\<rfloor>; r = x - of_int f
      in if r < 1 / 2 then f
         else if 1 / 2 < r then f + 1
         else if even f then f else f + 1)"

text \<open>
  The float nearest to a rational \<open>q\<close>, ties to the even mantissa: the conversion of a
  decimal string to a float. \<open>pow2 e\<close> is \<open>2\<^sup>e\<close> for an integer \<open>e\<close>. \<open>scale_down\<close> halves
  the magnitude until it is below \<open>2\<^sup>5\<^sup>3 = 9007199254740992\<close>, counting the exponent up
  from 0 (at most 1100 times, which passes the largest exponent 971). \<open>scale_up\<close> then
  doubles it until it reaches \<open>2\<^sup>5\<^sup>2 = 4503599627370496\<close> or the exponent reaches
  \<open>-1074\<close>, the exponent of the subnormal floats; its first argument is the exponent plus
  1074. The scaled magnitude \<open>m\<close> satisfies \<open>\<bar>q\<bar> = m * 2\<^sup>e\<close> and is rounded to the integer
  mantissa. A magnitude that rounds to \<open>2\<^sup>1\<^sup>0\<^sup>2\<^sup>4\<close> or more is beyond the floats and the
  conversion returns an infinity; a magnitude that rounds to zero gives a zero with the
  sign of \<open>q\<close>.
\<close>

definition pow2 :: "int \<Rightarrow> rat" where
  "pow2 e = (if 0 \<le> e then of_int (2 ^ nat e) else 1 / of_int (2 ^ nat (- e)))"

fun scale_down :: "nat \<Rightarrow> rat \<Rightarrow> int \<Rightarrow> rat \<times> int" where
  "scale_down 0 m e = (m, e)"
| "scale_down (Suc n) m e =
     (if m < 9007199254740992 then (m, e) else scale_down n (m / 2) (e + 1))"

fun scale_up :: "nat \<Rightarrow> rat \<Rightarrow> rat \<times> int" where
  "scale_up 0 m = (m, - 1074)"
| "scale_up (Suc n) m =
     (if 4503599627370496 \<le> m then (m, int (Suc n) - 1074) else scale_up n (2 * m))"

definition nearest_double :: "rat \<Rightarrow> pyfloat" where
  "nearest_double q =
     (let (m1, e1) = scale_down 1100 \<bar>q\<bar> 0;
          (m, e) = scale_up (nat (e1 + 1074)) m1;
          k = round_half_even m;
          v = of_int k * pow2 e
      in if pow2 1024 \<le> v then (if q < 0 then NegInf else PosInf)
         else if k = 0 then (if q < 0 then NegZero else Finite 0)
         else Finite (if q < 0 then - v else v))"

text \<open>
  \<^verbatim>\<open>round(x, ndigits)\<close> for a float \<open>x\<close> and \<open>0 \<le> ndigits\<close>, as CPython computes it. The
  infinities and \<^verbatim>\<open>nan\<close> round to themselves. A finite float is converted to the decimal
  with \<open>ndigits\<close> digits after the point that is nearest to its exact value, ties to even,
  with the sign of the float, and the decimal is converted back to the nearest float; a
  decimal whose digits are all zero gives \<^verbatim>\<open>0.0\<close> or \<^verbatim>\<open>-0.0\<close>. (Where the conversion back
  returns an infinity CPython raises \<^verbatim>\<open>OverflowError\<close>; with \<open>ndigits = 6\<close> no float gets
  there, because a float of magnitude \<open>2\<^sup>5\<^sup>2\<close> or more is an integer and its decimal is the
  float itself.)
\<close>

fun round_float :: "pyfloat \<Rightarrow> nat \<Rightarrow> pyfloat" where
  "round_float (Finite x) ndigits =
     (let k = round_half_even (x * 10 ^ ndigits)
      in if k = 0 then (if x < 0 then NegZero else Finite 0)
         else nearest_double (of_int k / 10 ^ ndigits))"
| "round_float NegZero ndigits = NegZero"
| "round_float PosInf ndigits = PosInf"
| "round_float NegInf ndigits = NegInf"
| "round_float NaN ndigits = NaN"

text \<open>
  \<^verbatim>\<open>round(timestamp, ndigits)\<close> for \<open>0 \<le> ndigits\<close>: on an \<^verbatim>\<open>int\<close> it returns the same
  \<^verbatim>\<open>int\<close>, on a \<^verbatim>\<open>float\<close> the rounded float.
\<close>

fun round_py :: "timestamp \<Rightarrow> nat \<Rightarrow> timestamp" where
  "round_py (IntTs i) ndigits = IntTs i"
| "round_py (FloatTs x) ndigits = FloatTs (round_float x ndigits)"

text \<open>
  The comparison \<^verbatim>\<open>timestamp < 0\<close>. It is false on both zeros, on \<^verbatim>\<open>inf\<close> and on \<^verbatim>\<open>nan\<close>.
\<close>

fun float_less_zero :: "pyfloat \<Rightarrow> bool" where
  "float_less_zero (Finite x) = (x < 0)"
| "float_less_zero NegZero = False"
| "float_less_zero PosInf = False"
| "float_less_zero NegInf = True"
| "float_less_zero NaN = False"

fun less_zero :: "timestamp \<Rightarrow> bool" where
  "less_zero (IntTs i) = (i < 0)"
| "less_zero (FloatTs x) = float_less_zero x"

subsection \<open>Users, streams, recipients\<close>

text \<open>
  Modelled from the spec: the classes \<^verbatim>\<open>UserProfile\<close>, \<^verbatim>\<open>Stream\<close>, \<^verbatim>\<open>Recipient\<close> and
  \<^verbatim>\<open>Draft\<close> live in \<^verbatim>\<open>zerver.models\<close>, which is not part of the sources at hand. Only
  the attributes the module reads are kept. A stream's \<^verbatim>\<open>recipient_id\<close> is a recipient
  identifier (spec, section 4.2: "the stream's associated recipient identifier").
\<close>

record user_profile =
  user_id :: int
  realm :: int
  enable_drafts_synchronization :: bool

record stream =
  stream_id :: int
  stream_recipient_id :: int

record recipient =
  recipient_obj_id :: int

type_synonym subscription = int

subsection \<open>Draft dicts\<close>

text \<open>
  A draft dict that has passed \<^verbatim>\<open>draft_dict_validator\<close>: the four required keys and the
  optional \<^verbatim>\<open>timestamp\<close>. The fields are the keys \<^verbatim>\<open>type\<close>, \<^verbatim>\<open>to\<close>, \<^verbatim>\<open>topic\<close>,
  \<^verbatim>\<open>content\<close> and \<^verbatim>\<open>timestamp\<close> of the incoming dict.
\<close>

record draft_dict =
  in_type :: string
  in_to :: "int list"
  in_topic :: string
  in_content :: string
  in_timestamp :: "timestamp option"

definition VALID_DRAFT_TYPES :: "string set" where
  "VALID_DRAFT_TYPES = {'''', ''private'', ''stream''}"

text \<open>The dict returned by \<^verbatim>\<open>further_validated_draft_dict\<close>, with its four keys.\<close>

record 'dt valid_draft_dict =
  recipient_id :: "int option"
  topic :: string
  content :: string
  last_edit_time :: 'dt

text \<open>
  A \<^verbatim>\<open>Draft\<close> object. \<^verbatim>\<open>draft_id\<close> is \<^verbatim>\<open>None\<close> until the store has assigned one.
\<close>

record 'dt draft =
  draft_id :: "int option"
  draft_user_profile :: int
  draft_recipient_id :: "int option"
  draft_topic :: string
  draft_content :: string
  draft_last_edit_time :: 'dt

subsection \<open>Errors\<close>

text \<open>
  Exceptions raised inside the collaborators. \<^verbatim>\<open>ValidationError\<close> carries its list of
  messages; every other exception is kept by its message.
\<close>

datatype exn = ValidationError "string list" | OtherError string

text \<open>
  The failures of this module, one constructor for each \<^verbatim>\<open>raise\<close>:
  \<^item> \<open>InvalidTimestamp\<close>: \<^verbatim>\<open>JsonableError("Timestamp must not be negative.")\<close>;
  \<^item> \<open>InvalidTopic\<close>: \<^verbatim>\<open>JsonableError("Topic must not contain null bytes")\<close>;
  \<^item> \<open>InvalidRecipientCount\<close>:
    \<^verbatim>\<open>JsonableError("Must specify exactly 1 stream ID for stream messages")\<close>;
  \<^item> \<open>BadAddressing m\<close>: \<^verbatim>\<open>JsonableError(e.messages[0])\<close> for a caught \<^verbatim>\<open>ValidationError\<close>;
  \<^item> \<open>SyncDisabled\<close>: \<^verbatim>\<open>JsonableError("User has disabled synchronizing drafts.")\<close>;
  \<^item> \<open>NotFound\<close>: \<^verbatim>\<open>ResourceNotFoundError("Draft does not exist")\<close>;
  \<^item> \<open>Propagated e\<close>: an exception of a collaborator that the module does not catch.
\<close>

datatype error =
    InvalidTimestamp
  | InvalidTopic
  | InvalidRecipientCount
  | BadAddressing string
  | SyncDisabled
  | NotFound
  | Propagated exn

subsection \<open>Collaborators\<close>

text \<open>
  Modelled from the spec: the imported functions \<^verbatim>\<open>normalize_body\<close>, \<^verbatim>\<open>truncate_topic\<close>,
  \<^verbatim>\<open>timestamp_to_datetime\<close>, \<^verbatim>\<open>access_stream_by_id\<close>, \<^verbatim>\<open>get_user_profiles_by_ids\<close>,
  \<^verbatim>\<open>recipient_for_user_profiles\<close> and the method \<^verbatim>\<open>Draft.to_dict\<close> are defined outside the
  sources at hand. They are parameters of the model, collected in one record that stands
  for the collaborator state. Following sections 4.2 and 6 of the spec, body
  normalisation, topic truncation and the conversion of the timestamp are total, and the
  stream-access, user-lookup and recipient resolvers may fail.
\<close>

record ('dt, 'dd) collab =
  normalize_body :: "string \<Rightarrow> string"
  truncate_topic :: "string \<Rightarrow> string"
  timestamp_to_datetime :: "timestamp \<Rightarrow> 'dt"
  access_stream_by_id :: "user_profile \<Rightarrow> int \<Rightarrow> exn + stream \<times> subscription option"
  get_user_profiles_by_ids :: "int set \<Rightarrow> int \<Rightarrow> exn + user_profile list"
  recipient_for_user_profiles ::
    "user_profile list \<Rightarrow> bool \<Rightarrow> user_profile option \<Rightarrow> user_profile \<Rightarrow> exn + recipient"
  to_dict :: "'dt draft \<Rightarrow> 'dd"

section \<open>The semantic validator\<close>

text \<open>
  Lines 57 and 58 of the source: \<^verbatim>\<open>draft_dict.get("timestamp", time.time())\<close>, then
  \<^verbatim>\<open>round(timestamp, 6)\<close>. \<^verbatim>\<open>time.time()\<close> returns a finite float.
\<close>

definition resolve_timestamp :: "rat \<Rightarrow> draft_dict \<Rightarrow> timestamp" where
  "resolve_timestamp now draft_dict =
     round_py (case in_timestamp draft_dict of Some t \<Rightarrow> t | None \<Rightarrow> FloatTs (Finite now)) 6"

text \<open>
  \<^verbatim>\<open>further_validated_draft_dict(draft_dict, user_profile)\<close>. The argument \<open>now\<close> is the
  value that \<^verbatim>\<open>time.time()\<close> returns during the call.
\<close>

definition further_validated_draft_dict ::
  "('dt, 'dd) collab \<Rightarrow> rat \<Rightarrow> draft_dict \<Rightarrow> user_profile \<Rightarrow> error + 'dt valid_draft_dict"
where
  "further_validated_draft_dict env now draft_dict user_profile =
    (let content' = normalize_body env (in_content draft_dict);
         timestamp = resolve_timestamp now draft_dict
     in if less_zero timestamp then Inl InvalidTimestamp
        else
          let last_edit_time' = timestamp_to_datetime env timestamp;
              to = in_to draft_dict
          in if in_type draft_dict = ''stream'' then
               let topic' = truncate_topic env (in_topic draft_dict)
               in if CHR 0x00 \<in> set topic' then Inl InvalidTopic
                  else if length to \<noteq> 1 then Inl InvalidRecipientCount
                  else (case access_stream_by_id env user_profile (to ! 0) of
                          Inl e \<Rightarrow> Inl (Propagated e)
                        | Inr (stream, sub) \<Rightarrow>
                            Inr \<lparr>recipient_id = Some (stream_recipient_id stream),
                                 topic = topic', content = content',
                                 last_edit_time = last_edit_time'\<rparr>)
             else if in_type draft_dict = ''private'' \<and> length to \<noteq> 0 then
               (case get_user_profiles_by_ids env (set to) (realm user_profile) of
                  Inl e \<Rightarrow> Inl (Propagated e)
                | Inr to_users \<Rightarrow>
                    (case recipient_for_user_profiles env to_users False None user_profile of
                       Inl (ValidationError messages) \<Rightarrow>
                         (case messages of
                            m # _ \<Rightarrow> Inl (BadAddressing m)
                          | [] \<Rightarrow> Inl (Propagated (OtherError ''IndexError'')))
                     | Inl (OtherError m) \<Rightarrow> Inl (Propagated (OtherError m))
                     | Inr r \<Rightarrow>
                         Inr \<lparr>recipient_id = Some (recipient_obj_id r),
                              topic = '''', content = content',
                              last_edit_time = last_edit_time'\<rparr>))
             else
               Inr \<lparr>recipient_id = None, topic = '''', content = content',
                    last_edit_time = last_edit_time'\<rparr>)"

section \<open>Persistence and event delivery\<close>

text \<open>
  The payload of an event sent by this module: the dicts
  \<^verbatim>\<open>{"type": "drafts", "op": "add", "drafts": [...]}\<close>,
  \<^verbatim>\<open>{"type": "drafts", "op": "update", "draft": ...}\<close> and
  \<^verbatim>\<open>{"type": "drafts", "op": "remove", "draft_id": ...}\<close>.
\<close>

datatype 'dd event = DraftsAdd "'dd list" | DraftsUpdate 'dd | DraftsRemove int

text \<open>
  Modelled from the spec: the persistence store and the event channel (the ORM manager
  \<^verbatim>\<open>Draft.objects\<close>, the methods \<^verbatim>\<open>save\<close> and \<^verbatim>\<open>delete\<close>, and \<^verbatim>\<open>send_event\<close>) are
  framework code outside the sources at hand; section 6 of the spec gives their contracts
  \<open>insert_many\<close>, \<open>get_one\<close>, \<open>save\<close>, \<open>delete\<close> and \<open>publish\<close>. The table of drafts is a
  map from the primary key to the row, \<open>next_id\<close> is the key the next insert receives,
  and \<open>events\<close> lists the calls of \<^verbatim>\<open>send_event\<close> in the order they were made, each with
  its realm, its payload and its list of user ids.
\<close>

record ('dt, 'dd) state =
  drafts :: "int \<rightharpoonup> 'dt draft"
  next_id :: int
  events :: "(int \<times> 'dd event \<times> int list) list"

text \<open>
  \<^verbatim>\<open>Draft.objects.get(id=draft_id, user_profile=user_profile)\<close>: the row whose id is
  \<open>draft_id\<close> and whose owner is the user, or \<open>None\<close> for \<^verbatim>\<open>Draft.DoesNotExist\<close>.
\<close>

definition objects_get ::
  "('dt, 'dd) state \<Rightarrow> int \<Rightarrow> user_profile \<Rightarrow> 'dt draft option"
where
  "objects_get s did user_profile =
     (case drafts s did of
        None \<Rightarrow> None
      | Some d \<Rightarrow>
          if draft_id d = Some did \<and> draft_user_profile d = user_id user_profile
          then Some d else None)"

text \<open>
  \<^verbatim>\<open>Draft.objects.bulk_create(draft_objects)\<close>: one grouped insert. The objects receive
  consecutive ids in the order of the list and are returned with them.
\<close>

definition bulk_create ::
  "'dt draft list \<Rightarrow> ('dt, 'dd) state \<Rightarrow> 'dt draft list \<times> ('dt, 'dd) state"
where
  "bulk_create objs s =
     (let ids = map (\<lambda>i. next_id s + int i) [0..<length objs];
          created = map2 (\<lambda>i d. d\<lparr>draft_id := Some i\<rparr>) ids objs
      in (created,
          s\<lparr>drafts := drafts s ++ map_of (zip ids created),
            next_id := next_id s + int (length objs)\<rparr>))"

text \<open>
  \<^verbatim>\<open>draft_object.save()\<close>: an object that has an id overwrites the row of that id; an
  object without one is inserted under the next id.
\<close>

definition save :: "'dt draft \<Rightarrow> ('dt, 'dd) state \<Rightarrow> ('dt, 'dd) state" where
  "save d s =
     (case draft_id d of
        Some i \<Rightarrow> s\<lparr>drafts := (drafts s)(i \<mapsto> d)\<rparr>
      | None \<Rightarrow>
          s\<lparr>drafts := (drafts s)(next_id s \<mapsto> d\<lparr>draft_id := Some (next_id s)\<rparr>),
            next_id := next_id s + 1\<rparr>)"

text \<open>
  \<^verbatim>\<open>draft_object.delete()\<close> for an object whose id is \<open>i\<close>: the row with that id is
  removed.
\<close>

definition delete :: "int \<Rightarrow> ('dt, 'dd) state \<Rightarrow> ('dt, 'dd) state" where
  "delete i s = s\<lparr>drafts := (drafts s)(i := None)\<rparr>"

text \<open>\<^verbatim>\<open>send_event(realm, event, users)\<close>.\<close>

definition send_event ::
  "int \<Rightarrow> 'dd event \<Rightarrow> int list \<Rightarrow> ('dt, 'dd) state \<Rightarrow> ('dt, 'dd) state"
where
  "send_event realm_id event users s = s\<lparr>events := events s @ [(realm_id, event, users)]\<rparr>"

section \<open>The guard and the mutation operations\<close>

text \<open>
  An operation takes the state and returns its outcome with the state it leaves: \<open>Inl\<close>
  of the error for a raised exception, \<open>Inr\<close> of the value for a normal return.

  \<^verbatim>\<open>draft_endpoint(view_func)\<close> is the decorated view \<^verbatim>\<open>draft_view_func\<close>; \<open>args\<close>
  stands for the remaining positional and keyword arguments.
\<close>

definition draft_endpoint ::
  "('req \<Rightarrow> user_profile \<Rightarrow> 'args \<Rightarrow> 'st \<Rightarrow> (error + 'resp) \<times> 'st) \<Rightarrow>
   'req \<Rightarrow> user_profile \<Rightarrow> 'args \<Rightarrow> 'st \<Rightarrow> (error + 'resp) \<times> 'st"
where
  "draft_endpoint view_func request user_profile args s =
     (if \<not> enable_drafts_synchronization user_profile then (Inl SyncDisabled, s)
      else view_func request user_profile args s)"

text \<open>
  The constructor call \<^verbatim>\<open>Draft(user_profile=..., recipient_id=..., topic=..., content=...,
  last_edit_time=...)\<close> of the loop body, and the loop of \<^verbatim>\<open>do_create_drafts\<close>, with the list \<^verbatim>\<open>draft_objects\<close> built so far as
  accumulator. Every iteration appends one object, so the iteration that sees
  \<open>draft_objects\<close> is the one numbered \<open>length draft_objects\<close>; \<open>clock k\<close> is the value of
  \<^verbatim>\<open>time.time()\<close> in iteration \<open>k\<close>.
\<close>

definition new_draft :: "user_profile \<Rightarrow> 'dt valid_draft_dict \<Rightarrow> 'dt draft" where
  "new_draft user_profile valid_draft_dict =
     \<lparr>draft_id = None,
      draft_user_profile = user_id user_profile,
      draft_recipient_id = recipient_id valid_draft_dict,
      draft_topic = topic valid_draft_dict,
      draft_content = content valid_draft_dict,
      draft_last_edit_time = last_edit_time valid_draft_dict\<rparr>"

fun create_loop ::
  "('dt, 'dd) collab \<Rightarrow> (nat \<Rightarrow> rat) \<Rightarrow> user_profile \<Rightarrow> draft_dict list \<Rightarrow>
   'dt draft list \<Rightarrow> error + 'dt draft list"
where
  "create_loop env clock user_profile [] draft_objects = Inr draft_objects"
| "create_loop env clock user_profile (draft_dict # rest) draft_objects =
     (case further_validated_draft_dict env (clock (length draft_objects)) draft_dict
             user_profile of
        Inl e \<Rightarrow> Inl e
      | Inr valid_draft_dict \<Rightarrow>
          create_loop env clock user_profile rest
            (draft_objects @ [new_draft user_profile valid_draft_dict]))"

definition do_create_drafts ::
  "('dt, 'dd) collab \<Rightarrow> (nat \<Rightarrow> rat) \<Rightarrow> draft_dict list \<Rightarrow> user_profile \<Rightarrow>
   ('dt, 'dd) state \<Rightarrow> (error + 'dt draft list) \<times> ('dt, 'dd) state"
where
  "do_create_drafts env clock draft_dicts user_profile s =
     (case create_loop env clock user_profile draft_dicts [] of
        Inl e \<Rightarrow> (Inl e, s)
      | Inr draft_objects \<Rightarrow>
          let (created_draft_objects, s1) = bulk_create draft_objects s;
              event = DraftsAdd (map (to_dict env) created_draft_objects);
              s2 = send_event (realm user_profile) event [user_id user_profile] s1
          in (Inr created_draft_objects, s2))"

definition do_edit_draft ::
  "('dt, 'dd) collab \<Rightarrow> rat \<Rightarrow> int \<Rightarrow> draft_dict \<Rightarrow> user_profile \<Rightarrow>
   ('dt, 'dd) state \<Rightarrow> (error + unit) \<times> ('dt, 'dd) state"
where
  "do_edit_draft env now did draft_dict user_profile s =
     (case objects_get s did user_profile of
        None \<Rightarrow> (Inl NotFound, s)
      | Some draft_object \<Rightarrow>
          (case further_validated_draft_dict env now draft_dict user_profile of
             Inl e \<Rightarrow> (Inl e, s)
           | Inr valid_draft_dict \<Rightarrow>
               let draft_object' =
                     draft_object\<lparr>draft_content := content valid_draft_dict,
                                  draft_topic := topic valid_draft_dict,
                                  draft_recipient_id := recipient_id valid_draft_dict,
                                  draft_last_edit_time := last_edit_time valid_draft_dict\<rparr>;
                   s1 = save draft_object' s;
                   event = DraftsUpdate (to_dict env draft_object');
                   s2 = send_event (realm user_profile) event [user_id user_profile] s1
               in (Inr (), s2)))"

text \<open>
  \<^verbatim>\<open>do_delete_draft\<close> reads \<^verbatim>\<open>draft_object.id\<close> and then calls \<^verbatim>\<open>delete()\<close>, which
  raises on an object without an id; \<open>objects_get\<close> never returns such an object.
\<close>

definition do_delete_draft ::
  "int \<Rightarrow> user_profile \<Rightarrow> ('dt, 'dd) state \<Rightarrow> (error + unit) \<times> ('dt, 'dd) state"
where
  "do_delete_draft did user_profile s =
     (case objects_get s did user_profile of
        None \<Rightarrow> (Inl NotFound, s)
      | Some draft_object \<Rightarrow>
          (case draft_id draft_object of
             None \<Rightarrow> (Inl (Propagated (OtherError ''ValueError'')), s)
           | Some did' \<Rightarrow>
               let s1 = delete did' s;
                   event = DraftsRemove did';
                   s2 = send_event (realm user_profile) event [user_id user_profile] s1
               in (Inr (), s2)))"

section \<open>A concrete collaborator state for the worked examples\<close>

text \<open>
  One realm with the users \<open>alice\<close> and \<open>bob\<close>. Stream 42 is the only stream; every user
  may access it and its recipient identifier is 7. The only group of users that the
  user lookup resolves is \<open>{bob}\<close>, and the recipient resolver answers with recipient 9.
  Bodies are left as they are, a topic keeps its first 60 characters, and the datetime
  of a timestamp is the timestamp itself.
\<close>

definition alice :: user_profile where
  "alice = \<lparr>user_id = 1, realm = 1, enable_drafts_synchronization = True\<rparr>"

definition bob :: user_profile where
  "bob = \<lparr>user_id = 2, realm = 1, enable_drafts_synchronization = False\<rparr>"

definition example_collab :: "(timestamp, timestamp draft) collab" where
  "example_collab =
     \<lparr>normalize_body = (\<lambda>body. body),
      truncate_topic = take 60,
      timestamp_to_datetime = (\<lambda>t. t),
      access_stream_by_id =
        (\<lambda>u sid. if sid = 42 then Inr (\<lparr>stream_id = 42, stream_recipient_id = 7\<rparr>, None)
                 else Inl (OtherError ''Invalid stream ID'')),
      get_user_profiles_by_ids =
        (\<lambda>ids r. if ids = {2} then Inr [bob] else Inl (OtherError ''Invalid user ID'')),
      recipient_for_user_profiles = (\<lambda>us fwd fwder sender. Inr \<lparr>recipient_obj_id = 9\<rparr>),
      to_dict = (\<lambda>d. d)\<rparr>"

text \<open>
  Stream drafts with chosen \<^verbatim>\<open>to\<close>, \<^verbatim>\<open>topic\<close> and \<^verbatim>\<open>timestamp\<close> entries;
  \<open>stream_draft [42] "plans"\<close> is the draft dict
  \<^verbatim>\<open>{type: "stream", to: [42], topic: "plans", content: "hi"}\<close> of the spec's scenario.
  \<open>unaddressed_draft\<close> is a draft that is not addressed yet, \<open>private_draft\<close> a
  private draft with chosen user ids.
\<close>

definition stream_draft :: "int list \<Rightarrow> string \<Rightarrow> timestamp option \<Rightarrow> draft_dict" where
  "stream_draft to_ids topic_text ts =
     \<lparr>in_type = ''stream'', in_to = to_ids, in_topic = topic_text, in_content = ''hi'',
      in_timestamp = ts\<rparr>"

definition unaddressed_draft :: "timestamp option \<Rightarrow> draft_dict" where
  "unaddressed_draft ts =
     \<lparr>in_type = '''', in_to = [], in_topic = '''', in_content = ''hi'', in_timestamp = ts\<rparr>"

definition private_draft :: "int list \<Rightarrow> timestamp option \<Rightarrow> draft_dict" where
  "private_draft to_ids ts =
     \<lparr>in_type = ''private'', in_to = to_ids, in_topic = '''', in_content = ''hi'',
      in_timestamp = ts\<rparr>"

text \<open>
  Two states of the store: nothing stored yet, and one draft with id 1 that belongs to
  \<open>alice\<close>.
\<close>

definition example_row :: "timestamp draft" where
  "example_row =
     \<lparr>draft_id = Some 1, draft_user_profile = 1, draft_recipient_id = Some 7,
      draft_topic = ''plans'', draft_content = ''hi'', draft_last_edit_time = IntTs 5\<rparr>"

definition empty_state :: "(timestamp, timestamp draft) state" where
  "empty_state = \<lparr>drafts = Map.empty, next_id = 1, events = []\<rparr>"

definition example_state :: "(timestamp, timestamp draft) state" where
  "example_state = \<lparr>drafts = [1 \<mapsto> example_row], next_id = 2, events = []\<rparr>"

section \<open>Rounding and the sign of the rounded timestamp\<close>

lemma round_half_even_neg: "round_half_even x < 0 \<longleftrightarrow> x < - 1 / 2"
proof -
  define f where "f = \<lfloor>x\<rfloor>"
  have lo: "of_int f \<le> x" and hi: "x < of_int f + 1"
    unfolding f_def by linarith+
  show ?thesis
    unfolding round_half_even_def Let_def f_def[symmetric]
  proof (cases "x - of_int f < 1 / 2")
    case True
    then show "((if x - of_int f < 1 / 2 then f else if 1 / 2 < x - of_int f then f + 1
                 else if even f then f else f + 1) < 0) = (x < - 1 / 2)"
      using lo hi by (simp; linarith)
  next
    case False
    note nlt = this
    show "((if x - of_int f < 1 / 2 then f else if 1 / 2 < x - of_int f then f + 1
                 else if even f then f else f + 1) < 0) = (x < - 1 / 2)"
    proof (cases "1 / 2 < x - of_int f")
      case True
      then show ?thesis using nlt lo hi by (simp; linarith)
    next
      case False
      then have eq: "x = of_int f + 1 / 2" using nlt by linarith
      show ?thesis
      proof (cases "even f")
        case True
        then have "f \<noteq> -1" by auto
        then have "(f < 0) = (f < -1)" by linarith
        then show ?thesis using True eq by (simp; linarith)
      next
        case False
        then show ?thesis using eq by (simp; linarith)
      qed
    qed
  qed
qed

lemma round_half_even_pos: "0 < round_half_even x \<longleftrightarrow> 1 / 2 < x"
proof -
  define f where "f = \<lfloor>x\<rfloor>"
  have lo: "of_int f \<le> x" and hi: "x < of_int f + 1"
    unfolding f_def by linarith+
  show ?thesis
    unfolding round_half_even_def Let_def f_def[symmetric]
  proof (cases "x - of_int f < 1 / 2")
    case True
    then show "(0 < (if x - of_int f < 1 / 2 then f else if 1 / 2 < x - of_int f then f + 1
                 else if even f then f else f + 1)) = (1 / 2 < x)"
      using lo hi by (simp; linarith)
  next
    case False
    note nlt = this
    show "(0 < (if x - of_int f < 1 / 2 then f else if 1 / 2 < x - of_int f then f + 1
                 else if even f then f else f + 1)) = (1 / 2 < x)"
    proof (cases "1 / 2 < x - of_int f")
      case True
      then show ?thesis using nlt lo hi by (simp; linarith)
    next
      case False
      then have eq: "x = of_int f + 1 / 2" using nlt by linarith
      show ?thesis
      proof (cases "even f")
        case True
        then show ?thesis using eq by (simp; linarith)
      next
        case False
        then have "f \<noteq> 0" by auto
        then have "(0 < f + 1) = (0 < f)" by linarith
        then show ?thesis using False eq by (simp; linarith)
      qed
    qed
  qed
qed

lemma pow2_pos: "0 < pow2 e"
  by (simp add: pow2_def)

lemma scale_down_cases:
  "scale_down n m e = (m', e') \<Longrightarrow> (m' = m \<and> e' = e) \<or> 4503599627370496 \<le> m'"
proof (induction n arbitrary: m e)
  case 0
  then show ?case by simp
next
  case (Suc n)
  show ?case
  proof (cases "m < 9007199254740992")
    case True
    with Suc.prems show ?thesis by simp
  next
    case False
    with Suc.prems have "scale_down n (m / 2) (e + 1) = (m', e')" by simp
    from Suc.IH [OF this] False show ?thesis by auto
  qed
qed

lemma scale_up_half: "0 < m \<Longrightarrow> 1 / 2 < m * 2 ^ n \<Longrightarrow> 1 / 2 < fst (scale_up n m)"
proof (induction n arbitrary: m)
  case 0
  then show ?case by simp
next
  case (Suc n)
  show ?case
  proof (cases "4503599627370496 \<le> m")
    case True
    then show ?thesis by simp
  next
    case False
    have "1 / 2 < fst (scale_up n (2 * m))"
      using Suc.prems by (intro Suc.IH) (simp_all add: mult.assoc mult.left_commute)
    with False show ?thesis by simp
  qed
qed

text \<open>
  The float nearest to a rational of magnitude \<open>10\<^sup>-\<^sup>6\<close> or more is below zero exactly when
  the rational is: rounding to the nearest float does not reach zero there.
\<close>

lemma nearest_double_sign:
  assumes "1 / 10 ^ 6 \<le> \<bar>q\<bar>"
  shows "float_less_zero (nearest_double q) \<longleftrightarrow> q < 0"
proof -
  obtain m1 e1 where sd: "scale_down 1100 \<bar>q\<bar> 0 = (m1, e1)" by fastforce
  obtain m e where su: "scale_up (nat (e1 + 1074)) m1 = (m, e)" by fastforce
  have "(0::rat) < 1 / 10 ^ 6" by simp
  with assms have qpos: "0 < \<bar>q\<bar>" by linarith
  have "1 / 2 < fst (scale_up (nat (e1 + 1074)) m1)"
  proof (rule disjE [OF scale_down_cases [OF sd]])
    assume a: "m1 = \<bar>q\<bar> \<and> e1 = 0"
    have "(2::rat) ^ 20 \<le> 2 ^ 1074" by (rule power_increasing) simp_all
    then have "(1048576::rat) \<le> 2 ^ 1074" by simp
    moreover have "0 \<le> \<bar>q\<bar>" by simp
    ultimately have "\<bar>q\<bar> * 1048576 \<le> \<bar>q\<bar> * 2 ^ 1074" by (rule mult_left_mono)
    moreover have "1 / 2 < \<bar>q\<bar> * 1048576" using assms by simp
    ultimately have "1 / 2 < \<bar>q\<bar> * 2 ^ 1074" by linarith
    with qpos have "1 / 2 < fst (scale_up 1074 \<bar>q\<bar>)" by (rule scale_up_half)
    moreover have "nat (e1 + 1074) = 1074" using a by simp
    ultimately show ?thesis using a by (simp only:)
  next
    assume b: "4503599627370496 \<le> m1"
    have "(1::rat) \<le> 2 ^ nat (e1 + 1074)" by simp
    moreover have "0 \<le> m1" using b by linarith
    ultimately have "m1 * 1 \<le> m1 * 2 ^ nat (e1 + 1074)" by (rule mult_left_mono)
    with b have h: "1 / 2 < m1 * 2 ^ nat (e1 + 1074)" by linarith
    have "0 < m1" using b by linarith
    then show ?thesis using h by (rule scale_up_half)
  qed
  with su have "1 / 2 < m" by simp
  then have k: "0 < round_half_even m" by (simp add: round_half_even_pos)
  then have v: "0 < of_int (round_half_even m) * pow2 e"
    using pow2_pos [of e] by simp
  show ?thesis
    using k v sd su by (simp add: nearest_double_def Let_def)
qed

lemma less_zero_round_float:
  "less_zero (round_py (FloatTs (Finite x)) 6) \<longleftrightarrow> x < - 1 / 2000000"
proof -
  define k where "k = round_half_even (x * 10 ^ 6)"
  have neg: "k < 0 \<longleftrightarrow> x < - 1 / 2000000"
  proof -
    have "k < 0 \<longleftrightarrow> x * 10 ^ 6 < - 1 / 2" unfolding k_def by (rule round_half_even_neg)
    also have "\<dots> \<longleftrightarrow> x < - 1 / 2000000" by (simp add: field_simps)
    finally show ?thesis .
  qed
  have rf: "round_float (Finite x) 6 =
              (if k = 0 then (if x < 0 then NegZero else Finite 0)
               else nearest_double (of_int k / 10 ^ 6))"
    unfolding k_def by (simp only: round_float.simps Let_def)
  have lz: "less_zero (round_py (FloatTs (Finite x)) 6) =
              float_less_zero (round_float (Finite x) 6)"
    by (simp only: round_py.simps less_zero.simps)
  show ?thesis
  proof (cases "k = 0")
    case True
    then have "\<not> float_less_zero (round_float (Finite x) 6)"
      unfolding rf by (cases "x < 0") simp_all
    moreover have "\<not> x < - 1 / 2000000" using neg True by simp
    ultimately show ?thesis unfolding lz by blast
  next
    case False
    then have "1 \<le> \<bar>k\<bar>" by linarith
    then have "(1::rat) \<le> of_int \<bar>k\<bar>" by (simp only: of_int_1_le_iff)
    then have "(1::rat) \<le> \<bar>of_int k\<bar>" by (simp only: of_int_abs)
    then have le: "1 / 10 ^ 6 \<le> \<bar>of_int k :: rat\<bar> / 10 ^ 6"
      by (intro divide_right_mono) simp_all
    have eq: "\<bar>(of_int k :: rat) / 10 ^ 6\<bar> = \<bar>of_int k\<bar> / 10 ^ 6"
      by (simp add: abs_divide)
    have "1 / 10 ^ 6 \<le> \<bar>(of_int k :: rat) / 10 ^ 6\<bar>"
      unfolding eq by (rule le)
    from nearest_double_sign [OF this]
    have "float_less_zero (nearest_double (of_int k / 10 ^ 6)) \<longleftrightarrow> (of_int k :: rat) / 10 ^ 6 < 0" .
    also have "\<dots> \<longleftrightarrow> k < 0" by (simp add: divide_less_0_iff)
    finally have "float_less_zero (round_float (Finite x) 6) \<longleftrightarrow> k < 0"
      unfolding rf using False by (simp only: if_False)
    with neg show ?thesis unfolding lz by blast
  qed
qed

text \<open>
  Values of \<^verbatim>\<open>round(x, 6)\<close>: on the float \<open>-2\<^sup>-\<^sup>2\<^sup>1\<close> it is \<^verbatim>\<open>-0.0\<close>, on \<^verbatim>\<open>1.0\<close> and \<^verbatim>\<open>2.0\<close>
  the float itself, and on \<^verbatim>\<open>1700000000.1234567\<close>, the float
  \<open>7130316800517815 / 2\<^sup>2\<^sup>2\<close>, it is \<^verbatim>\<open>1700000000.123457\<close>, the float
  \<open>891289600064727 / 2\<^sup>1\<^sup>9\<close>.
\<close>

lemma round_small_negative: "round_float (Finite (- 1 / 2097152)) 6 = NegZero"
  by code_simp

lemma round_float_one: "round_float (Finite 1) 6 = Finite 1"
  by code_simp

lemma round_float_two: "round_float (Finite 2) 6 = Finite 2"
  by code_simp

lemma round_float_example:
  "round_float (Finite (7130316800517815 / 4194304)) 6 = Finite (891289600064727 / 524288)"
  by code_simp

section \<open>The timestamp step of the validator\<close>

lemma fvdd_InvalidTimestamp_iff:
  "further_validated_draft_dict env now d u = Inl InvalidTimestamp
     \<longleftrightarrow> less_zero (resolve_timestamp now d)"
  by (auto simp: further_validated_draft_dict_def Let_def
           split: sum.splits exn.splits list.splits prod.splits)

lemma fvdd_last_edit_time:
  "further_validated_draft_dict env now d u = Inr r \<Longrightarrow>
     last_edit_time r = timestamp_to_datetime env (resolve_timestamp now d)"
  by (auto simp: further_validated_draft_dict_def Let_def
           split: sum.splits exn.splits list.splits prod.splits if_splits)

text \<open>
  Claim C1, as the code has it. The check of line 59 reads the timestamp after
  \<^verbatim>\<open>round(timestamp, 6)\<close>. For a draft dict with an explicit timestamp \<open>t\<close>, the validator
  fails with \<open>InvalidTimestamp\<close> exactly when the rounded timestamp is below zero: for an
  integer \<open>t\<close> when \<open>t < 0\<close>, for a finite float \<open>t\<close> when \<open>t < -0.0000005\<close>, and for
  \<^verbatim>\<open>-inf\<close>; it does not for \<^verbatim>\<open>-0.0\<close>, \<^verbatim>\<open>inf\<close> and \<^verbatim>\<open>nan\<close>. Every result it returns has
  \<open>last_edit_time\<close> equal to the conversion of \<^verbatim>\<open>round(t, 6)\<close>.
\<close>

theorem timestamp_step:
  assumes "in_timestamp d = Some t"
  shows "(further_validated_draft_dict env now d u = Inl InvalidTimestamp \<longleftrightarrow>
            (case t of
               IntTs i \<Rightarrow> i < 0
             | FloatTs f \<Rightarrow>
                 (case f of
                    Finite x \<Rightarrow> x < - 1 / 2000000
                  | NegZero \<Rightarrow> False
                  | PosInf \<Rightarrow> False
                  | NegInf \<Rightarrow> True
                  | NaN \<Rightarrow> False))) \<and>
         (\<forall>r. further_validated_draft_dict env now d u = Inr r \<longrightarrow>
            last_edit_time r = timestamp_to_datetime env (round_py t 6))"
proof -
  have rt: "resolve_timestamp now d = round_py t 6"
    using assms by (simp add: resolve_timestamp_def)
  have "less_zero (round_py t 6) \<longleftrightarrow>
          (case t of
             IntTs i \<Rightarrow> i < 0
           | FloatTs f \<Rightarrow>
               (case f of
                  Finite x \<Rightarrow> x < - 1 / 2000000
                | NegZero \<Rightarrow> False
                | PosInf \<Rightarrow> False
                | NegInf \<Rightarrow> True
                | NaN \<Rightarrow> False))"
  proof (cases t)
    case (IntTs i)
    then show ?thesis by simp
  next
    case (FloatTs f)
    show ?thesis
    proof (cases f)
      case (Finite x)
      with FloatTs show ?thesis using less_zero_round_float [of x] by (simp only: timestamp.case pyfloat.case)
    qed (use FloatTs in simp_all)
  qed
  then show ?thesis
    using fvdd_InvalidTimestamp_iff [of env now d u] fvdd_last_edit_time [of env now d u] rt
    by (simp only:) blast
qed

text \<open>
  The theorem at four inputs: the float \<^verbatim>\<open>-1.0\<close> is refused; the integer \<open>5\<close> is accepted
  and converted; the float \<^verbatim>\<open>1700000000.1234567\<close> is accepted and the float
  \<^verbatim>\<open>1700000000.123457\<close> is converted; \<^verbatim>\<open>nan\<close> is accepted and converted.
\<close>

theorem timestamp_step_witness:
  "further_validated_draft_dict example_collab 0
       (stream_draft [42] ''plans'' (Some (FloatTs (Finite (- 1))))) alice
     = Inl InvalidTimestamp \<and>
   further_validated_draft_dict example_collab 0
       (stream_draft [42] ''plans'' (Some (IntTs 5))) alice
     = Inr \<lparr>recipient_id = Some 7, topic = ''plans'', content = ''hi'',
            last_edit_time = IntTs 5\<rparr> \<and>
   further_validated_draft_dict example_collab 0
       (stream_draft [42] ''plans''
          (Some (FloatTs (Finite (7130316800517815 / 4194304))))) alice
     = Inr \<lparr>recipient_id = Some 7, topic = ''plans'', content = ''hi'',
            last_edit_time = FloatTs (Finite (891289600064727 / 524288))\<rparr> \<and>
   further_validated_draft_dict example_collab 0
       (stream_draft [42] ''plans'' (Some (FloatTs NaN))) alice
     = Inr \<lparr>recipient_id = Some 7, topic = ''plans'', content = ''hi'',
            last_edit_time = FloatTs NaN\<rparr>"
proof -
  have "further_validated_draft_dict example_collab 0
          (stream_draft [42] ''plans'' (Some (FloatTs (Finite (- 1))))) alice
          = Inl InvalidTimestamp"
    using timestamp_step
      [of "stream_draft [42] ''plans'' (Some (FloatTs (Finite (- 1))))"
          "FloatTs (Finite (- 1))" example_collab 0 alice]
    by (simp add: stream_draft_def)
  moreover have "further_validated_draft_dict example_collab 0
          (stream_draft [42] ''plans'' (Some (IntTs 5))) alice
     = Inr \<lparr>recipient_id = Some 7, topic = ''plans'', content = ''hi'',
            last_edit_time = IntTs 5\<rparr>"
    using timestamp_step
      [of "stream_draft [42] ''plans'' (Some (IntTs 5))" "IntTs 5" example_collab 0 alice]
    by (simp add: stream_draft_def further_validated_draft_dict_def resolve_timestamp_def
                  example_collab_def)
  moreover have "further_validated_draft_dict example_collab 0
       (stream_draft [42] ''plans''
          (Some (FloatTs (Finite (7130316800517815 / 4194304))))) alice
     = Inr \<lparr>recipient_id = Some 7, topic = ''plans'', content = ''hi'',
            last_edit_time = FloatTs (Finite (891289600064727 / 524288))\<rparr>"
    using timestamp_step
      [of "stream_draft [42] ''plans''
             (Some (FloatTs (Finite (7130316800517815 / 4194304))))"
          "FloatTs (Finite (7130316800517815 / 4194304))" example_collab 0 alice]
      round_float_example
    by (simp add: stream_draft_def further_validated_draft_dict_def resolve_timestamp_def
                  example_collab_def
             del: round_float.simps)
  moreover have "further_validated_draft_dict example_collab 0
       (stream_draft [42] ''plans'' (Some (FloatTs NaN))) alice
     = Inr \<lparr>recipient_id = Some 7, topic = ''plans'', content = ''hi'',
            last_edit_time = FloatTs NaN\<rparr>"
    using timestamp_step
      [of "stream_draft [42] ''plans'' (Some (FloatTs NaN))" "FloatTs NaN"
          example_collab 0 alice]
    by (simp add: stream_draft_def further_validated_draft_dict_def resolve_timestamp_def
                  example_collab_def)
  ultimately show ?thesis by (simp only:)
qed

text \<open>
  Claim C1 as stated fails on a negative float that rounds to zero. The float
  \<open>-2\<^sup>-\<^sup>2\<^sup>1\<close> (about \<open>-0.000000477\<close>) is negative, \<^verbatim>\<open>round\<close> takes it to \<^verbatim>\<open>-0.0\<close>, which
  is not below zero, and the validator returns a result.
\<close>

theorem tiny_negative_timestamp_accepted:
  "(- 1 / 2097152 :: rat) < 0 \<and>
   further_validated_draft_dict example_collab 0
       (unaddressed_draft (Some (FloatTs (Finite (- 1 / 2097152))))) alice
     = Inr \<lparr>recipient_id = None, topic = '''', content = ''hi'',
            last_edit_time = FloatTs NegZero\<rparr>"
  using round_small_negative
  by (simp add: unaddressed_draft_def further_validated_draft_dict_def resolve_timestamp_def
                example_collab_def
           del: round_float.simps)

section \<open>Stream drafts\<close>

lemma fvdd_stream:
  assumes "in_type d = ''stream''" "\<not> less_zero (resolve_timestamp now d)"
  shows "further_validated_draft_dict env now d u =
    (if CHR 0x00 \<in> set (truncate_topic env (in_topic d)) then Inl InvalidTopic
     else if length (in_to d) \<noteq> 1 then Inl InvalidRecipientCount
     else (case access_stream_by_id env u (in_to d ! 0) of
             Inl e \<Rightarrow> Inl (Propagated e)
           | Inr (st, sub) \<Rightarrow>
               Inr \<lparr>recipient_id = Some (stream_recipient_id st),
                    topic = truncate_topic env (in_topic d),
                    content = normalize_body env (in_content d),
                    last_edit_time = timestamp_to_datetime env (resolve_timestamp now d)\<rparr>))"
  using assms by (simp add: further_validated_draft_dict_def Let_def)

text \<open>
  Claim C2, as the code has it. Take a stream-type draft dict whose \<^verbatim>\<open>to\<close> is the single
  stream id \<open>sid\<close>, a user who may access that stream, and a timestamp that is not
  negative after rounding. If the truncated topic contains a null byte the validator
  fails with \<open>InvalidTopic\<close>. Otherwise it returns the recipient identifier of the
  accessed stream and, as topic, the raw topic truncated to the maximum topic length,
  which has no null byte. The code has no check that this topic is non-empty: the
  returned topic is empty exactly when the truncated raw topic is.
\<close>

theorem stream_draft_resolution:
  assumes "in_type d = ''stream''"
    and "in_to d = [sid]"
    and "access_stream_by_id env u sid = Inr (st, sub)"
    and "\<not> less_zero (resolve_timestamp now d)"
  shows "(CHR 0x00 \<in> set (truncate_topic env (in_topic d)) \<longrightarrow>
            further_validated_draft_dict env now d u = Inl InvalidTopic) \<and>
         (CHR 0x00 \<notin> set (truncate_topic env (in_topic d)) \<longrightarrow>
            further_validated_draft_dict env now d u =
              Inr \<lparr>recipient_id = Some (stream_recipient_id st),
                   topic = truncate_topic env (in_topic d),
                   content = normalize_body env (in_content d),
                   last_edit_time = timestamp_to_datetime env (resolve_timestamp now d)\<rparr>) \<and>
         (\<forall>r. further_validated_draft_dict env now d u = Inr r \<longrightarrow>
            (topic r = '''' \<longleftrightarrow> truncate_topic env (in_topic d) = ''''))"
  using assms by (auto simp: fvdd_stream)

text \<open>
  The theorem on the spec's scenario (stream 42, topic "plans"), and on a topic with a
  null byte.
\<close>

theorem stream_draft_resolution_witness:
  "further_validated_draft_dict example_collab 0
       (stream_draft [42] ''plans'' (Some (IntTs 5))) alice =
     Inr \<lparr>recipient_id = Some 7, topic = ''plans'', content = ''hi'',
          last_edit_time = IntTs 5\<rparr> \<and>
   further_validated_draft_dict example_collab 0
       (stream_draft [42] [CHR ''a'', CHR 0x00] (Some (IntTs 5))) alice =
     Inl InvalidTopic"
proof -
  have a: "access_stream_by_id example_collab alice 42 =
             Inr (\<lparr>stream_id = 42, stream_recipient_id = 7\<rparr>, None)"
    by (simp add: example_collab_def)
  have "further_validated_draft_dict example_collab 0
          (stream_draft [42] ''plans'' (Some (IntTs 5))) alice =
     Inr \<lparr>recipient_id = Some 7, topic = ''plans'', content = ''hi'',
          last_edit_time = IntTs 5\<rparr>"
    using stream_draft_resolution
      [of "stream_draft [42] ''plans'' (Some (IntTs 5))" 42 example_collab alice
          "\<lparr>stream_id = 42, stream_recipient_id = 7\<rparr>" None 0] a
    by (simp add: stream_draft_def resolve_timestamp_def example_collab_def)
  moreover have "further_validated_draft_dict example_collab 0
       (stream_draft [42] [CHR ''a'', CHR 0x00] (Some (IntTs 5))) alice =
     Inl InvalidTopic"
    using stream_draft_resolution
      [of "stream_draft [42] [CHR ''a'', CHR 0x00] (Some (IntTs 5))" 42 example_collab alice
          "\<lparr>stream_id = 42, stream_recipient_id = 7\<rparr>" None 0] a
    by (simp add: stream_draft_def resolve_timestamp_def example_collab_def)
  ultimately show ?thesis by simp
qed

text \<open>
  Claim C2 as stated fails at two inputs. A stream draft for the accessible stream 42
  whose topic is the empty string is accepted and the returned topic is empty. The
  scenario's draft with the timestamp \<open>-1\<close> returns nothing: it fails with
  \<open>InvalidTimestamp\<close>.
\<close>

theorem stream_draft_empty_topic_or_negative_timestamp:
  "further_validated_draft_dict example_collab 0
       (stream_draft [42] '''' (Some (IntTs 0))) alice =
     Inr \<lparr>recipient_id = Some 7, topic = '''', content = ''hi'', last_edit_time = IntTs 0\<rparr> \<and>
   further_validated_draft_dict example_collab 0
       (stream_draft [42] ''plans'' (Some (IntTs (- 1)))) alice =
     Inl InvalidTimestamp"
  by (simp add: stream_draft_def further_validated_draft_dict_def resolve_timestamp_def
                example_collab_def)

text \<open>
  Claim C5, as the code has it. Take a stream-type draft dict whose truncated topic has
  no null byte and whose timestamp is not negative after rounding. The validator fails
  with \<open>InvalidRecipientCount\<close> exactly when \<^verbatim>\<open>to\<close> does not hold exactly one integer.
  With exactly one integer \<open>sid\<close> the outcome is that of the stream resolution: its
  failure, unchanged, or the result built from the stream it returns.
\<close>

theorem stream_recipient_count:
  assumes "in_type d = ''stream''"
    and "CHR 0x00 \<notin> set (truncate_topic env (in_topic d))"
    and "\<not> less_zero (resolve_timestamp now d)"
  shows "(further_validated_draft_dict env now d u = Inl InvalidRecipientCount \<longleftrightarrow>
            length (in_to d) \<noteq> 1) \<and>
         (\<forall>sid. in_to d = [sid] \<longrightarrow>
            further_validated_draft_dict env now d u =
              (case access_stream_by_id env u sid of
                 Inl e \<Rightarrow> Inl (Propagated e)
               | Inr (st, sub) \<Rightarrow>
                   Inr \<lparr>recipient_id = Some (stream_recipient_id st),
                        topic = truncate_topic env (in_topic d),
                        content = normalize_body env (in_content d),
                        last_edit_time =
                          timestamp_to_datetime env (resolve_timestamp now d)\<rparr>))"
  using assms by (auto simp: fvdd_stream split: sum.splits prod.splits)

text \<open>
  The theorem on the spec's scenario \<^verbatim>\<open>to: [42, 43]\<close>, and on a single stream id that the
  stream resolution refuses.
\<close>

theorem stream_recipient_count_witness:
  "further_validated_draft_dict example_collab 0
       (stream_draft [42, 43] ''plans'' (Some (IntTs 5))) alice = Inl InvalidRecipientCount \<and>
   further_validated_draft_dict example_collab 0
       (stream_draft [43] ''plans'' (Some (IntTs 5))) alice =
     Inl (Propagated (OtherError ''Invalid stream ID''))"
proof -
  have "further_validated_draft_dict example_collab 0
       (stream_draft [42, 43] ''plans'' (Some (IntTs 5))) alice = Inl InvalidRecipientCount"
    using stream_recipient_count
      [of "stream_draft [42, 43] ''plans'' (Some (IntTs 5))" example_collab 0 alice]
    by (simp add: stream_draft_def resolve_timestamp_def example_collab_def)
  moreover have "further_validated_draft_dict example_collab 0
       (stream_draft [43] ''plans'' (Some (IntTs 5))) alice =
     Inl (Propagated (OtherError ''Invalid stream ID''))"
    using stream_recipient_count
      [of "stream_draft [43] ''plans'' (Some (IntTs 5))" example_collab 0 alice]
    by (simp add: stream_draft_def resolve_timestamp_def example_collab_def)
  ultimately show ?thesis by simp
qed

text \<open>
  Claim C5 as stated fails when the timestamp is negative: the check of the timestamp
  comes first. The stream draft with \<^verbatim>\<open>to: [42, 43]\<close>, a topic without null byte and the
  timestamp \<open>-1\<close> fails with \<open>InvalidTimestamp\<close>, not with \<open>InvalidRecipientCount\<close>.
\<close>

theorem negative_timestamp_before_recipient_count:
  "length [42, 43 :: int] \<noteq> 1 \<and>
   CHR 0x00 \<notin> set (truncate_topic example_collab ''plans'') \<and>
   further_validated_draft_dict example_collab 0
       (stream_draft [42, 43] ''plans'' (Some (IntTs (- 1)))) alice = Inl InvalidTimestamp"
  by (simp add: stream_draft_def further_validated_draft_dict_def resolve_timestamp_def
                example_collab_def)

section \<open>Bulk creation\<close>

lemma create_loop_first_failure:
  "i < length ds \<Longrightarrow>
   further_validated_draft_dict env (clock (length acc + i)) (ds ! i) u = Inl e \<Longrightarrow>
   (\<forall>j<i. \<exists>v. further_validated_draft_dict env (clock (length acc + j)) (ds ! j) u = Inr v) \<Longrightarrow>
   create_loop env clock u ds acc = Inl e"
proof (induction ds arbitrary: acc i)
  case Nil
  then show ?case by simp
next
  case (Cons d ds)
  show ?case
  proof (cases i)
    case 0
    with Cons.prems show ?thesis by simp
  next
    case (Suc k)
    from Cons.prems(3) Suc obtain v where
      v: "further_validated_draft_dict env (clock (length acc)) d u = Inr v"
      by force
    have "create_loop env clock u ds (acc @ [new_draft u v]) = Inl e"
    proof (rule Cons.IH [of k])
      show "k < length ds" using Cons.prems(1) Suc by simp
      show "further_validated_draft_dict env (clock (length (acc @ [new_draft u v]) + k))
              (ds ! k) u = Inl e"
        using Cons.prems(2) Suc by simp
      show "\<forall>j<k. \<exists>w. further_validated_draft_dict env
              (clock (length (acc @ [new_draft u v]) + j)) (ds ! j) u = Inr w"
      proof (intro allI impI)
        fix j assume "j < k"
        then have "Suc j < i" using Suc by simp
        with Cons.prems(3) show "\<exists>w. further_validated_draft_dict env
              (clock (length (acc @ [new_draft u v]) + j)) (ds ! j) u = Inr w"
          by fastforce
      qed
    qed
    with v show ?thesis by simp
  qed
qed

lemma create_loop_success:
  "length vs = length ds \<Longrightarrow>
   (\<forall>i<length ds.
      further_validated_draft_dict env (clock (length acc + i)) (ds ! i) u = Inr (vs ! i)) \<Longrightarrow>
   create_loop env clock u ds acc = Inr (acc @ map (new_draft u) vs)"
proof (induction ds arbitrary: acc vs)
  case Nil
  then show ?case by simp
next
  case (Cons d ds)
  then obtain v vs' where vs: "vs = v # vs'" by (cases vs) auto
  have v: "further_validated_draft_dict env (clock (length acc)) d u = Inr v"
    using Cons.prems(2) vs by force
  have "create_loop env clock u ds (acc @ [new_draft u v]) =
          Inr ((acc @ [new_draft u v]) @ map (new_draft u) vs')"
  proof (rule Cons.IH)
    show "length vs' = length ds" using Cons.prems(1) vs by simp
    show "\<forall>i<length ds. further_validated_draft_dict env
            (clock (length (acc @ [new_draft u v]) + i)) (ds ! i) u = Inr (vs' ! i)"
    proof (intro allI impI)
      fix i assume "i < length ds"
      then have "Suc i < length (d # ds)" by simp
      with Cons.prems(2) have "further_validated_draft_dict env
            (clock (length acc + Suc i)) ((d # ds) ! Suc i) u = Inr (vs ! Suc i)"
        by blast
      then show "further_validated_draft_dict env
            (clock (length (acc @ [new_draft u v]) + i)) (ds ! i) u = Inr (vs' ! i)"
        using vs by simp
    qed
  qed
  with v vs show ?case by simp
qed

lemma create_loop_any_failure:
  "i < length ds \<Longrightarrow>
   further_validated_draft_dict env (clock (length acc + i)) (ds ! i) u = Inl e \<Longrightarrow>
   \<exists>e'. create_loop env clock u ds acc = Inl e'"
proof (induction ds arbitrary: acc i)
  case Nil
  then show ?case by simp
next
  case (Cons d ds)
  show ?case
  proof (cases "further_validated_draft_dict env (clock (length acc)) d u")
    case (Inl e0)
    then show ?thesis by simp
  next
    case (Inr v)
    with Cons.prems obtain k where k: "i = Suc k" by (cases i) auto
    have "\<exists>e'. create_loop env clock u ds (acc @ [new_draft u v]) = Inl e'"
      using Cons.IH [of k "acc @ [new_draft u v]"] Cons.prems k by simp
    with Inr show ?thesis by simp
  qed
qed

lemma create_loop_Inr_D:
  "create_loop env clock u ds acc = Inr objs \<Longrightarrow>
   \<exists>vs. length vs = length ds \<and>
        (\<forall>i<length ds.
           further_validated_draft_dict env (clock (length acc + i)) (ds ! i) u = Inr (vs ! i)) \<and>
        objs = acc @ map (new_draft u) vs"
proof (induction ds arbitrary: acc)
  case Nil
  then show ?case by simp
next
  case (Cons d ds)
  from Cons.prems obtain v where
    v: "further_validated_draft_dict env (clock (length acc)) d u = Inr v"
    and rest: "create_loop env clock u ds (acc @ [new_draft u v]) = Inr objs"
    by (auto split: sum.splits)
  from Cons.IH [OF rest] obtain vs where
    len: "length vs = length ds"
    and ok: "\<forall>i<length ds. further_validated_draft_dict env
               (clock (length (acc @ [new_draft u v]) + i)) (ds ! i) u = Inr (vs ! i)"
    and objs: "objs = (acc @ [new_draft u v]) @ map (new_draft u) vs"
    by blast
  have "\<forall>i<length (d # ds). further_validated_draft_dict env
          (clock (length acc + i)) ((d # ds) ! i) u = Inr ((v # vs) ! i)"
  proof (intro allI impI)
    fix i assume i: "i < length (d # ds)"
    show "further_validated_draft_dict env
          (clock (length acc + i)) ((d # ds) ! i) u = Inr ((v # vs) ! i)"
    proof (cases i)
      case 0
      with v show ?thesis by simp
    next
      case (Suc k)
      with i ok show ?thesis by simp
    qed
  qed
  with len objs show ?case
    by (intro exI [of _ "v # vs"]) simp
qed

lemma bulk_create_stored:
  assumes "i < length objs"
  shows "drafts (snd (bulk_create objs s)) (next_id s + int i) =
           Some ((objs ! i)\<lparr>draft_id := Some (next_id s + int i)\<rparr>)"
proof -
  let ?ids = "map (\<lambda>i. next_id s + int i) [0..<length objs]"
  let ?created = "map2 (\<lambda>i d. d\<lparr>draft_id := Some i\<rparr>) ?ids objs"
  have d: "distinct ?ids" by (simp add: distinct_map inj_on_def)
  have l: "length ?ids = length ?created" by simp
  have "map_of (zip ?ids ?created) (?ids ! i) = Some (?created ! i)"
    using d l assms by (intro map_of_zip_nth) simp_all
  moreover have "?ids ! i = next_id s + int i" using assms by simp
  moreover have "?created ! i = (objs ! i)\<lparr>draft_id := Some (next_id s + int i)\<rparr>"
    using assms by simp
  ultimately show ?thesis
    by (simp add: bulk_create_def Let_def map_add_def)
qed

lemma do_create_drafts_Inr_D:
  assumes "do_create_drafts env clock ds u s = (Inr created, s')"
  shows "\<exists>vs. length vs = length ds \<and>
          (\<forall>i<length ds.
             further_validated_draft_dict env (clock i) (ds ! i) u = Inr (vs ! i) \<and>
             created ! i = (new_draft u (vs ! i))\<lparr>draft_id := Some (next_id s + int i)\<rparr> \<and>
             drafts s' (next_id s + int i) = Some (created ! i)) \<and>
          length created = length ds"
proof -
  from assms obtain objs where
    loop: "create_loop env clock u ds [] = Inr objs"
    and cr: "created = fst (bulk_create objs s)"
    and st: "drafts s' = drafts (snd (bulk_create objs s))"
    by (auto simp: do_create_drafts_def send_event_def Let_def
             split: sum.splits prod.splits)
  from create_loop_Inr_D [OF loop] obtain vs where
    len: "length vs = length ds"
    and ok: "\<forall>i<length ds. further_validated_draft_dict env (clock i) (ds ! i) u = Inr (vs ! i)"
    and objs: "objs = map (new_draft u) vs"
    by auto
  have c: "\<forall>i<length ds.
             created ! i = (new_draft u (vs ! i))\<lparr>draft_id := Some (next_id s + int i)\<rparr>"
    using cr objs len by (simp add: bulk_create_def Let_def)
  have "\<forall>i<length ds. drafts s' (next_id s + int i) = Some (created ! i)"
    using bulk_create_stored [of _ objs s] c st objs len by simp
  moreover have "length created = length ds"
    using cr objs len by (simp add: bulk_create_def Let_def)
  ultimately show ?thesis using len ok c by blast
qed

text \<open>
  Claim C3. \<^verbatim>\<open>do_create_drafts\<close> validates the dicts in order; \<open>clock i\<close> is the clock reading
  of iteration \<open>i\<close>. If the dict at position \<open>i\<close> is the first that fails semantic
  validation, the operation fails with that error and leaves the state as it was: no
  draft stored, no event sent. Whenever any dict fails, whatever its position, the
  operation fails and leaves the state as it was, so every dict is validated before the
  grouped insert. If every dict validates, the drafts built from
  the results receive consecutive ids in the order of the input, are stored in one
  insert, and one \<^verbatim>\<open>drafts/add\<close> event with the dicts of the created drafts, in creation
  order, is appended to the events after it.
\<close>

theorem create_drafts_all_or_nothing:
  "(\<forall>i e. i < length ds \<and>
           further_validated_draft_dict env (clock i) (ds ! i) u = Inl e \<and>
           (\<forall>j<i. \<exists>v. further_validated_draft_dict env (clock j) (ds ! j) u = Inr v)
           \<longrightarrow> do_create_drafts env clock ds u s = (Inl e, s)) \<and>
   (\<forall>i e. i < length ds \<and>
           further_validated_draft_dict env (clock i) (ds ! i) u = Inl e
           \<longrightarrow> (\<exists>e'. do_create_drafts env clock ds u s = (Inl e', s))) \<and>
   (\<forall>vs. length vs = length ds \<and>
          (\<forall>i<length ds. further_validated_draft_dict env (clock i) (ds ! i) u = Inr (vs ! i))
          \<longrightarrow> (let ids = map (\<lambda>i. next_id s + int i) [0..<length ds];
                   created = map2 (\<lambda>i v. (new_draft u v)\<lparr>draft_id := Some i\<rparr>) ids vs
               in do_create_drafts env clock ds u s =
                    (Inr created,
                     s\<lparr>drafts := drafts s ++ map_of (zip ids created),
                       next_id := next_id s + int (length ds),
                       events := events s @
                         [(realm u, DraftsAdd (map (to_dict env) created), [user_id u])]\<rparr>)))"
proof (intro conjI allI impI)
  fix i e
  assume h: "i < length ds \<and>
           further_validated_draft_dict env (clock i) (ds ! i) u = Inl e \<and>
           (\<forall>j<i. \<exists>v. further_validated_draft_dict env (clock j) (ds ! j) u = Inr v)"
  then have "create_loop env clock u ds [] = Inl e"
    using create_loop_first_failure [of i ds env clock "[]" u e] by simp
  then show "do_create_drafts env clock ds u s = (Inl e, s)"
    by (simp add: do_create_drafts_def)
next
  fix i e
  assume h: "i < length ds \<and> further_validated_draft_dict env (clock i) (ds ! i) u = Inl e"
  then obtain e' where "create_loop env clock u ds [] = Inl e'"
    using create_loop_any_failure [of i ds env clock "[]" u e] by auto
  then show "\<exists>e'. do_create_drafts env clock ds u s = (Inl e', s)"
    by (simp add: do_create_drafts_def)
next
  fix vs
  assume h: "length vs = length ds \<and>
          (\<forall>i<length ds. further_validated_draft_dict env (clock i) (ds ! i) u = Inr (vs ! i))"
  then have "create_loop env clock u ds [] = Inr (map (new_draft u) vs)"
    using create_loop_success [of vs ds env clock "[]" u] by simp
  then show "let ids = map (\<lambda>i. next_id s + int i) [0..<length ds];
                   created = map2 (\<lambda>i v. (new_draft u v)\<lparr>draft_id := Some i\<rparr>) ids vs
               in do_create_drafts env clock ds u s =
                    (Inr created,
                     s\<lparr>drafts := drafts s ++ map_of (zip ids created),
                       next_id := next_id s + int (length ds),
                       events := events s @
                         [(realm u, DraftsAdd (map (to_dict env) created), [user_id u])]\<rparr>)"
    using h
    by (simp add: do_create_drafts_def bulk_create_def send_event_def Let_def zip_map2
                  map_zip_map2 comp_def case_prod_unfold)
qed

text \<open>Two evaluations of the validator that the worked examples below share.\<close>

lemma fvdd_plans_5:
  "further_validated_draft_dict example_collab now
       (stream_draft [42] ''plans'' (Some (IntTs 5))) alice =
     Inr \<lparr>recipient_id = Some 7, topic = ''plans'', content = ''hi'', last_edit_time = IntTs 5\<rparr>"
  by (simp add: stream_draft_def further_validated_draft_dict_def resolve_timestamp_def
                example_collab_def)

lemma fvdd_unaddressed_negative:
  "further_validated_draft_dict example_collab now (unaddressed_draft (Some (IntTs (- 1)))) u =
     Inl InvalidTimestamp"
  by (simp add: unaddressed_draft_def further_validated_draft_dict_def resolve_timestamp_def)

text \<open>
  The theorem on the spec's scenario: of two drafts the second has a negative timestamp,
  and the batch fails with nothing stored and nothing sent; the first draft alone is
  created with id 1 and announced by one event.
\<close>

theorem create_drafts_all_or_nothing_witness:
  "do_create_drafts example_collab (\<lambda>k. 0)
      [stream_draft [42] ''plans'' (Some (IntTs 5)), unaddressed_draft (Some (IntTs (- 1)))]
      alice empty_state = (Inl InvalidTimestamp, empty_state) \<and>
   do_create_drafts example_collab (\<lambda>k. 0)
      [stream_draft [42] ''plans'' (Some (IntTs 5))] alice empty_state =
     (Inr [example_row],
      \<lparr>drafts = [1 \<mapsto> example_row], next_id = 2,
       events = [(1, DraftsAdd [example_row], [1])]\<rparr>)"
proof -
  have "do_create_drafts example_collab (\<lambda>k. 0)
      [stream_draft [42] ''plans'' (Some (IntTs 5)), unaddressed_draft (Some (IntTs (- 1)))]
      alice empty_state = (Inl InvalidTimestamp, empty_state)"
    using create_drafts_all_or_nothing
      [of "[stream_draft [42] ''plans'' (Some (IntTs 5)),
            unaddressed_draft (Some (IntTs (- 1)))]"
          example_collab "\<lambda>k. 0" alice empty_state]
      fvdd_plans_5 [of 0] fvdd_unaddressed_negative [of 0 alice]
    by (auto dest!: conjunct1 spec [of _ 1] spec [of _ InvalidTimestamp])
  moreover have "do_create_drafts example_collab (\<lambda>k. 0)
      [stream_draft [42] ''plans'' (Some (IntTs 5))] alice empty_state =
     (Inr [example_row],
      \<lparr>drafts = [1 \<mapsto> example_row], next_id = 2,
       events = [(1, DraftsAdd [example_row], [1])]\<rparr>)"
    using create_drafts_all_or_nothing
      [of "[stream_draft [42] ''plans'' (Some (IntTs 5))]"
          example_collab "\<lambda>k. 0" alice empty_state]
      fvdd_plans_5 [of 0]
    by (auto dest!: conjunct2
                    spec [of _ "[\<lparr>recipient_id = Some 7, topic = ''plans'', content = ''hi'',
                                  last_edit_time = IntTs 5\<rparr>]"]
             simp: Let_def empty_state_def example_row_def new_draft_def alice_def
                   example_collab_def)
  ultimately show ?thesis by simp
qed

section \<open>Editing and deleting\<close>

lemma objects_get_None_iff:
  "objects_get s did u = None \<longleftrightarrow>
     \<not> (\<exists>row. drafts s did = Some row \<and> draft_id row = Some did \<and>
                draft_user_profile row = user_id u)"
  by (auto simp: objects_get_def split: option.splits)

lemma objects_get_Some:
  "objects_get s did u = Some obj \<Longrightarrow>
     drafts s did = Some obj \<and> draft_id obj = Some did \<and> draft_user_profile obj = user_id u"
  by (auto simp: objects_get_def split: option.splits if_splits)

lemma do_edit_draft_NotFound:
  "objects_get s did u = None \<Longrightarrow> do_edit_draft env now did d u s = (Inl NotFound, s)"
  by (simp add: do_edit_draft_def)

lemma do_delete_draft_NotFound:
  "objects_get s did u = None \<Longrightarrow> do_delete_draft did u s = (Inl NotFound, s)"
  by (simp add: do_delete_draft_def)

lemma fvdd_not_NotFound:
  "further_validated_draft_dict env now d u \<noteq> Inl NotFound"
  by (auto simp: further_validated_draft_dict_def Let_def
           split: sum.splits exn.splits list.splits prod.splits)

lemma do_edit_draft_NotFound_iff:
  "fst (do_edit_draft env now did d u s) = Inl NotFound \<longleftrightarrow> objects_get s did u = None"
  using fvdd_not_NotFound [of env now d u]
  by (auto simp: do_edit_draft_def Let_def split: option.splits sum.splits)

lemma do_delete_draft_Found:
  "objects_get s did u = Some obj \<Longrightarrow>
     do_delete_draft did u s =
       (Inr (), s\<lparr>drafts := (drafts s)(did := None),
                  events := events s @ [(realm u, DraftsRemove did, [user_id u])]\<rparr>)"
  by (auto simp: do_delete_draft_def delete_def send_event_def Let_def
           dest!: objects_get_Some)

lemma do_delete_draft_NotFound_iff:
  "fst (do_delete_draft did u s) = Inl NotFound \<longleftrightarrow> objects_get s did u = None"
proof (cases "objects_get s did u")
  case None
  then show ?thesis by (simp add: do_delete_draft_NotFound)
next
  case (Some obj)
  then show ?thesis by (simp add: do_delete_draft_Found)
qed

lemma do_delete_draft_twice:
  assumes "fst (do_delete_draft did u s) = Inr ()"
  shows "do_delete_draft did u (snd (do_delete_draft did u s)) =
           (Inl NotFound, snd (do_delete_draft did u s))"
proof (cases "objects_get s did u")
  case None
  with assms show ?thesis by (simp add: do_delete_draft_NotFound)
next
  case (Some obj)
  then have "objects_get (snd (do_delete_draft did u s)) did u = None"
    by (simp add: do_delete_draft_Found objects_get_def)
  then show ?thesis by (rule do_delete_draft_NotFound)
qed

lemma do_edit_draft_Inr_D:
  assumes "do_edit_draft env now did d u s = (Inr (), s')"
  shows "\<exists>obj v. objects_get s did u = Some obj \<and>
           further_validated_draft_dict env now d u = Inr v \<and>
           drafts s' did =
             Some (obj\<lparr>draft_content := content v, draft_topic := topic v,
                       draft_recipient_id := recipient_id v,
                       draft_last_edit_time := last_edit_time v\<rparr>)"
proof -
  from assms obtain obj v where
    g: "objects_get s did u = Some obj"
    and v: "further_validated_draft_dict env now d u = Inr v"
    by (auto simp: do_edit_draft_def split: option.splits sum.splits)
  have "draft_id obj = Some did"
    using g by (auto simp: objects_get_def split: option.splits if_splits)
  with assms g v show ?thesis
    by (auto simp: do_edit_draft_def save_def send_event_def Let_def)
qed

text \<open>
  Claim C6. \<^verbatim>\<open>do_edit_draft\<close> and \<^verbatim>\<open>do_delete_draft\<close> fail with \<open>NotFound\<close> exactly when
  the scoped lookup finds nothing, that is, when the store has no draft with the given id
  that belongs to the acting user. Whether the id is absent or the draft belongs to
  another user, the outcome is the same: \<open>NotFound\<close> and the state as it was, so no event
  is sent and nothing changes. After a successful delete, a second delete of the same id
  by the same user fails with \<open>NotFound\<close>.
\<close>

theorem not_found_scoped_lookup:
  "(fst (do_edit_draft env now did d u s) = Inl NotFound \<longleftrightarrow> objects_get s did u = None) \<and>
   (fst (do_delete_draft did u s) = Inl NotFound \<longleftrightarrow> objects_get s did u = None) \<and>
   (objects_get s did u = None \<longleftrightarrow>
      \<not> (\<exists>row. drafts s did = Some row \<and> draft_id row = Some did \<and>
                 draft_user_profile row = user_id u)) \<and>
   (objects_get s did u = None \<longrightarrow>
      do_edit_draft env now did d u s = (Inl NotFound, s) \<and>
      do_delete_draft did u s = (Inl NotFound, s)) \<and>
   (fst (do_delete_draft did u s) = Inr () \<longrightarrow>
      do_delete_draft did u (snd (do_delete_draft did u s)) =
        (Inl NotFound, snd (do_delete_draft did u s)))"
  using do_edit_draft_NotFound_iff [of env now did d u s]
        do_delete_draft_NotFound_iff [of did u s]
        objects_get_None_iff [of s did u]
        do_edit_draft_NotFound [of s did u env now d]
        do_delete_draft_NotFound [of s did u]
        do_delete_draft_twice [of did u s]
  by blast

text \<open>The lookups and the delete that the worked examples below share.\<close>

lemma objects_get_example:
  "objects_get example_state 1 alice = Some example_row"
  "objects_get example_state 1 bob = None"
  "objects_get example_state 9999 alice = None"
  by (simp_all add: objects_get_def example_state_def example_row_def alice_def bob_def)

lemma delete_example:
  "do_delete_draft 1 alice example_state =
     (Inr (), \<lparr>drafts = Map.empty, next_id = 2, events = [(1, DraftsRemove 1, [1])]\<rparr>)"
  by (subst do_delete_draft_Found [OF objects_get_example(1)])
     (simp add: example_state_def alice_def)

text \<open>
  The theorem on the store that holds draft 1 of \<open>alice\<close>: \<open>bob\<close> editing draft 1 and
  \<open>alice\<close> deleting the absent id 9999 both get \<open>NotFound\<close> with the state unchanged,
  and \<open>alice\<close> deleting draft 1 twice gets \<open>NotFound\<close> the second time.
\<close>

theorem not_found_scoped_lookup_witness:
  "do_edit_draft example_collab 0 1 (stream_draft [42] ''plans'' (Some (IntTs 5))) bob
      example_state = (Inl NotFound, example_state) \<and>
   do_delete_draft 9999 alice example_state = (Inl NotFound, example_state) \<and>
   do_delete_draft 1 alice (snd (do_delete_draft 1 alice example_state)) =
     (Inl NotFound, snd (do_delete_draft 1 alice example_state))"
proof -
  have "do_edit_draft example_collab 0 1 (stream_draft [42] ''plans'' (Some (IntTs 5))) bob
      example_state = (Inl NotFound, example_state)"
    using not_found_scoped_lookup
      [of example_collab 0 1 "stream_draft [42] ''plans'' (Some (IntTs 5))" bob example_state]
      objects_get_example(2)
    by simp
  moreover have "do_delete_draft 9999 alice example_state = (Inl NotFound, example_state)"
    using not_found_scoped_lookup
      [of example_collab 0 9999 "stream_draft [42] ''plans'' (Some (IntTs 5))" alice example_state]
      objects_get_example(3)
    by simp
  moreover have "do_delete_draft 1 alice (snd (do_delete_draft 1 alice example_state)) =
     (Inl NotFound, snd (do_delete_draft 1 alice example_state))"
    using not_found_scoped_lookup
      [of example_collab 0 1 "stream_draft [42] ''plans'' (Some (IntTs 5))" alice example_state]
      delete_example
    by simp
  ultimately show ?thesis by simp
qed

section \<open>Invariants of the validator's results\<close>

lemma fvdd_result_shape:
  assumes "further_validated_draft_dict env now d u = Inr r"
  shows "(topic r \<noteq> '''' \<longrightarrow> in_type d = ''stream'') \<and>
         CHR 0x00 \<notin> set (topic r) \<and>
         (recipient_id r \<noteq> None \<longleftrightarrow>
            in_type d = ''stream'' \<or> (in_type d = ''private'' \<and> in_to d \<noteq> []))"
  using assms
  by (auto simp: further_validated_draft_dict_def Let_def
           split: if_splits sum.splits prod.splits exn.splits list.splits)

text \<open>
  Claim C4. Every result that \<^verbatim>\<open>further_validated_draft_dict\<close> returns has a topic that is
  non-empty only for the type \<^verbatim>\<open>"stream"\<close> and that contains no null byte, and a
  recipient id that is set exactly when the addressing was resolved: for the type
  \<^verbatim>\<open>"stream"\<close>, and for the type \<^verbatim>\<open>"private"\<close> with a non-empty \<^verbatim>\<open>to\<close>. For a private
  draft with empty \<^verbatim>\<open>to\<close> and for the empty-string type the recipient id is null and the
  topic is the empty string; among the three valid types these are the only drafts with
  a null recipient id. The draft records that the module persists carry these fields
  unchanged: every draft that a successful \<^verbatim>\<open>do_create_drafts\<close> stores, and the draft that
  a successful \<^verbatim>\<open>do_edit_draft\<close> saves, has such a topic and such a recipient id with
  respect to the dict it was made from.
\<close>

theorem result_invariants:
  "(\<forall>r. further_validated_draft_dict env now d u = Inr r \<longrightarrow>
      (topic r \<noteq> '''' \<longrightarrow> in_type d = ''stream'') \<and>
      CHR 0x00 \<notin> set (topic r) \<and>
      (recipient_id r \<noteq> None \<longleftrightarrow>
         in_type d = ''stream'' \<or> (in_type d = ''private'' \<and> in_to d \<noteq> [])) \<and>
      (in_type d = ''private'' \<and> in_to d = [] \<longrightarrow> recipient_id r = None \<and> topic r = '''') \<and>
      (in_type d = '''' \<longrightarrow> recipient_id r = None \<and> topic r = '''') \<and>
      (in_type d \<in> VALID_DRAFT_TYPES \<longrightarrow>
         (recipient_id r = None \<longleftrightarrow>
            in_type d = '''' \<or> (in_type d = ''private'' \<and> in_to d = [])))) \<and>
   (\<forall>created s'. do_create_drafts env clock ds u s = (Inr created, s') \<longrightarrow>
      length created = length ds \<and>
      (\<forall>i<length ds.
         drafts s' (next_id s + int i) = Some (created ! i) \<and>
         (draft_topic (created ! i) \<noteq> '''' \<longrightarrow> in_type (ds ! i) = ''stream'') \<and>
         CHR 0x00 \<notin> set (draft_topic (created ! i)) \<and>
         (draft_recipient_id (created ! i) \<noteq> None \<longleftrightarrow>
            in_type (ds ! i) = ''stream'' \<or>
            (in_type (ds ! i) = ''private'' \<and> in_to (ds ! i) \<noteq> [])))) \<and>
   (\<forall>s'. do_edit_draft env now did d u s = (Inr (), s') \<longrightarrow>
      (\<exists>row. drafts s' did = Some row \<and>
         (draft_topic row \<noteq> '''' \<longrightarrow> in_type d = ''stream'') \<and>
         CHR 0x00 \<notin> set (draft_topic row) \<and>
         (draft_recipient_id row \<noteq> None \<longleftrightarrow>
            in_type d = ''stream'' \<or> (in_type d = ''private'' \<and> in_to d \<noteq> []))))"
proof (intro conjI allI impI)
  fix created s'
  assume h: "do_create_drafts env clock ds u s = (Inr created, s')"
  from do_create_drafts_Inr_D [OF h] obtain vs where
    vs: "\<forall>i<length ds.
           further_validated_draft_dict env (clock i) (ds ! i) u = Inr (vs ! i) \<and>
           created ! i = (new_draft u (vs ! i))\<lparr>draft_id := Some (next_id s + int i)\<rparr> \<and>
           drafts s' (next_id s + int i) = Some (created ! i)"
    and len: "length created = length ds"
    by blast
  show "length created = length ds" by (rule len)
  fix i assume i: "i < length ds"
  from vs i have
    v: "further_validated_draft_dict env (clock i) (ds ! i) u = Inr (vs ! i)"
    and c: "created ! i = (new_draft u (vs ! i))\<lparr>draft_id := Some (next_id s + int i)\<rparr>"
    and st: "drafts s' (next_id s + int i) = Some (created ! i)"
    by blast+
  have t: "draft_topic (created ! i) = topic (vs ! i)"
    and r: "draft_recipient_id (created ! i) = recipient_id (vs ! i)"
    using c by (simp_all add: new_draft_def)
  show "drafts s' (next_id s + int i) = Some (created ! i)" by (rule st)
  show "in_type (ds ! i) = ''stream''" if "draft_topic (created ! i) \<noteq> ''''"
    using that fvdd_result_shape [OF v] t by simp
  show "CHR 0x00 \<notin> set (draft_topic (created ! i))"
    using fvdd_result_shape [OF v] t by simp
  show "(draft_recipient_id (created ! i) \<noteq> None) =
          (in_type (ds ! i) = ''stream'' \<or>
           (in_type (ds ! i) = ''private'' \<and> in_to (ds ! i) \<noteq> []))"
    using fvdd_result_shape [OF v] r by simp
next
  fix s'
  assume h: "do_edit_draft env now did d u s = (Inr (), s')"
  from do_edit_draft_Inr_D [OF h] obtain obj v where
    v: "further_validated_draft_dict env now d u = Inr v"
    and st: "drafts s' did =
             Some (obj\<lparr>draft_content := content v, draft_topic := topic v,
                       draft_recipient_id := recipient_id v,
                       draft_last_edit_time := last_edit_time v\<rparr>)"
    by blast
  show "\<exists>row. drafts s' did = Some row \<and>
         (draft_topic row \<noteq> '''' \<longrightarrow> in_type d = ''stream'') \<and>
         CHR 0x00 \<notin> set (draft_topic row) \<and>
         (draft_recipient_id row \<noteq> None \<longleftrightarrow>
            in_type d = ''stream'' \<or> (in_type d = ''private'' \<and> in_to d \<noteq> []))"
    using st fvdd_result_shape [OF v] by simp
qed (use fvdd_result_shape [of env now d u] in \<open>auto simp: VALID_DRAFT_TYPES_def\<close>)

text \<open>Evaluations of the operations that the worked example below uses.\<close>

lemma fvdd_unaddressed_5:
  "further_validated_draft_dict example_collab now (unaddressed_draft (Some (IntTs 5))) u =
     Inr \<lparr>recipient_id = None, topic = '''', content = ''hi'', last_edit_time = IntTs 5\<rparr>"
  by (simp add: unaddressed_draft_def further_validated_draft_dict_def
                resolve_timestamp_def example_collab_def)

lemma create_example:
  "do_create_drafts example_collab (\<lambda>k. 0)
      [stream_draft [42] ''plans'' (Some (IntTs 5))] alice empty_state =
     (Inr [example_row],
      \<lparr>drafts = [1 \<mapsto> example_row], next_id = 2,
       events = [(1, DraftsAdd [example_row], [1])]\<rparr>)"
  using fvdd_plans_5 [of 0]
  by (simp add: do_create_drafts_def bulk_create_def send_event_def new_draft_def
                empty_state_def example_row_def alice_def example_collab_def)

lemma edit_example:
  "do_edit_draft example_collab 0 1 (unaddressed_draft (Some (IntTs 5))) alice example_state =
     (Inr (),
      \<lparr>drafts = [1 \<mapsto> example_row\<lparr>draft_topic := '''', draft_recipient_id := None\<rparr>],
       next_id = 2,
       events = [(1, DraftsUpdate (example_row\<lparr>draft_topic := '''',
                                               draft_recipient_id := None\<rparr>), [1])]\<rparr>)"
  using fvdd_unaddressed_5 [of 0 alice] objects_get_example(1)
  by (simp add: do_edit_draft_def save_def send_event_def Let_def example_state_def
                example_row_def alice_def example_collab_def)

text \<open>
  The theorem on a private draft with empty \<^verbatim>\<open>to\<close>, a private draft to \<open>bob\<close>, the
  stream draft of the scenario, the draft stored by creating it, and draft 1 after
  \<open>alice\<close> has replaced it by a draft that is not addressed.
\<close>

theorem result_invariants_witness:
  "further_validated_draft_dict example_collab 0 (private_draft [] (Some (IntTs 5))) alice =
     Inr \<lparr>recipient_id = None, topic = '''', content = ''hi'', last_edit_time = IntTs 5\<rparr> \<and>
   further_validated_draft_dict example_collab 0 (private_draft [2, 2] (Some (IntTs 5))) alice =
     Inr \<lparr>recipient_id = Some 9, topic = '''', content = ''hi'', last_edit_time = IntTs 5\<rparr> \<and>
   further_validated_draft_dict example_collab 0
       (stream_draft [42] ''plans'' (Some (IntTs 5))) alice =
     Inr \<lparr>recipient_id = Some 7, topic = ''plans'', content = ''hi'',
          last_edit_time = IntTs 5\<rparr> \<and>
   CHR 0x00 \<notin> set ''plans'' \<and>
   drafts (snd (do_create_drafts example_collab (\<lambda>k. 0)
                  [stream_draft [42] ''plans'' (Some (IntTs 5))] alice empty_state)) 1 =
     Some example_row \<and>
   drafts (snd (do_edit_draft example_collab 0 1 (unaddressed_draft (Some (IntTs 5))) alice
                  example_state)) 1 =
     Some (example_row\<lparr>draft_topic := '''', draft_recipient_id := None\<rparr>)"
proof -
  have a: "further_validated_draft_dict example_collab 0
             (private_draft [] (Some (IntTs 5))) alice =
     Inr \<lparr>recipient_id = None, topic = '''', content = ''hi'', last_edit_time = IntTs 5\<rparr>"
    by (simp add: private_draft_def further_validated_draft_dict_def resolve_timestamp_def
                  example_collab_def)
  have c: "further_validated_draft_dict example_collab 0
             (private_draft [2, 2] (Some (IntTs 5))) alice =
     Inr \<lparr>recipient_id = Some 9, topic = '''', content = ''hi'', last_edit_time = IntTs 5\<rparr>"
    by (simp add: private_draft_def further_validated_draft_dict_def resolve_timestamp_def
                  example_collab_def)
  note e = fvdd_plans_5 [of 0]
  have "CHR 0x00 \<notin> set ''plans''"
    using result_invariants
      [of example_collab 0 "stream_draft [42] ''plans'' (Some (IntTs 5))" alice
          "\<lambda>k. 0" "[stream_draft [42] ''plans'' (Some (IntTs 5))]" empty_state 1] e
    by simp
  moreover have "drafts (snd (do_create_drafts example_collab (\<lambda>k. 0)
                  [stream_draft [42] ''plans'' (Some (IntTs 5))] alice empty_state)) 1 =
     Some example_row"
    using result_invariants
      [of example_collab 0 "stream_draft [42] ''plans'' (Some (IntTs 5))" alice
          "\<lambda>k. 0" "[stream_draft [42] ''plans'' (Some (IntTs 5))]" empty_state 1]
      create_example
    by (simp add: empty_state_def)
  moreover have "drafts (snd (do_edit_draft example_collab 0 1
                  (unaddressed_draft (Some (IntTs 5))) alice example_state)) 1 =
     Some (example_row\<lparr>draft_topic := '''', draft_recipient_id := None\<rparr>)"
    using result_invariants
      [of example_collab 0 "unaddressed_draft (Some (IntTs 5))" alice
          "\<lambda>k. 0" "[]" example_state 1]
      edit_example
    by simp
  ultimately show ?thesis using a c e by simp
qed

section \<open>The wall clock\<close>

lemma fvdd_clock_irrelevant:
  "in_timestamp d = Some t \<Longrightarrow>
     further_validated_draft_dict env now1 d u = further_validated_draft_dict env now2 d u"
  by (simp add: further_validated_draft_dict_def resolve_timestamp_def)

text \<open>
  Claim C8. Two calls of \<^verbatim>\<open>further_validated_draft_dict\<close> with the same draft dict, the
  same acting user and the same collaborator state, made at the clock readings \<open>now1\<close>
  and \<open>now2\<close>, have the same outcome (result or failure) whenever the dict has a
  \<^verbatim>\<open>timestamp\<close> entry; two calls that differ are calls on a dict without that entry.
\<close>

theorem explicit_timestamp_deterministic:
  "(in_timestamp d \<noteq> None \<longrightarrow>
      further_validated_draft_dict env now1 d u = further_validated_draft_dict env now2 d u) \<and>
   (further_validated_draft_dict env now1 d u \<noteq> further_validated_draft_dict env now2 d u
      \<longrightarrow> in_timestamp d = None)"
proof (cases "in_timestamp d")
  case None
  then show ?thesis by simp
next
  case (Some t)
  then show ?thesis using fvdd_clock_irrelevant [of d t env now1 u now2] by simp
qed

text \<open>
  The theorem on the scenario's draft: with the timestamp \<open>5\<close> the calls at the clock
  readings 1 and 2 agree; without a timestamp they differ.
\<close>

theorem explicit_timestamp_deterministic_witness:
  "further_validated_draft_dict example_collab 1
       (stream_draft [42] ''plans'' (Some (IntTs 5))) alice =
   further_validated_draft_dict example_collab 2
       (stream_draft [42] ''plans'' (Some (IntTs 5))) alice \<and>
   further_validated_draft_dict example_collab 1 (stream_draft [42] ''plans'' None) alice \<noteq>
   further_validated_draft_dict example_collab 2 (stream_draft [42] ''plans'' None) alice \<and>
   in_timestamp (stream_draft [42] ''plans'' None) = None"
proof -
  have "further_validated_draft_dict example_collab 1
          (stream_draft [42] ''plans'' (Some (IntTs 5))) alice =
        further_validated_draft_dict example_collab 2
          (stream_draft [42] ''plans'' (Some (IntTs 5))) alice"
    using explicit_timestamp_deterministic
      [of "stream_draft [42] ''plans'' (Some (IntTs 5))" example_collab 1 alice 2]
    by (simp add: stream_draft_def)
  moreover have ne: "further_validated_draft_dict example_collab 1
          (stream_draft [42] ''plans'' None) alice \<noteq>
        further_validated_draft_dict example_collab 2
          (stream_draft [42] ''plans'' None) alice"
    using round_float_one round_float_two
    by (simp add: stream_draft_def further_validated_draft_dict_def resolve_timestamp_def
                  example_collab_def
             del: round_float.simps)
  moreover have "in_timestamp (stream_draft [42] ''plans'' None) = None"
    using ne explicit_timestamp_deterministic
      [of "stream_draft [42] ''plans'' None" example_collab 1 alice 2]
    by blast
  ultimately show ?thesis by simp
qed

section \<open>The guard\<close>

text \<open>
  Claim C7. A request that enters through \<^verbatim>\<open>draft_endpoint\<close> for a user whose
  \<^verbatim>\<open>enable_drafts_synchronization\<close> flag is false fails with \<open>SyncDisabled\<close> and leaves the
  state as it was, whatever the wrapped view is: the view is not run. For a user whose
  flag is true the outcome is that of the wrapped view on the same arguments.
\<close>

theorem draft_endpoint_guard:
  "(\<not> enable_drafts_synchronization u \<longrightarrow>
      draft_endpoint view_func request u args s = (Inl SyncDisabled, s) \<and>
      draft_endpoint view_func request u args s = draft_endpoint view_func' request u args s) \<and>
   (enable_drafts_synchronization u \<longrightarrow>
      draft_endpoint view_func request u args s = view_func request u args s)"
  by (simp add: draft_endpoint_def)

text \<open>
  The theorem with the delete operation as the wrapped view: \<open>bob\<close> has disabled
  synchronisation, \<open>alice\<close> has not.
\<close>

theorem draft_endpoint_guard_witness:
  "draft_endpoint (\<lambda>request u did. do_delete_draft did u) () bob 1 example_state =
     (Inl SyncDisabled, example_state) \<and>
   draft_endpoint (\<lambda>request u did. do_delete_draft did u) () alice 1 example_state =
     do_delete_draft 1 alice example_state"
proof -
  have "draft_endpoint (\<lambda>request u did. do_delete_draft did u) () bob 1 example_state =
     (Inl SyncDisabled, example_state)"
    using draft_endpoint_guard [of bob "\<lambda>request u did. do_delete_draft did u" "()" 1
            example_state "\<lambda>request u did. do_delete_draft did u"]
    by (simp add: bob_def)
  moreover have "draft_endpoint (\<lambda>request u did. do_delete_draft did u) () alice 1 example_state =
     do_delete_draft 1 alice example_state"
    using draft_endpoint_guard [of alice "\<lambda>request u did. do_delete_draft did u" "()" 1
            example_state "\<lambda>request u did. do_delete_draft did u"]
    by (simp add: alice_def)
  ultimately show ?thesis by simp
qed

section \<open>Order of the checks in an edit\<close>

text \<open>
  Claim C9. In \<^verbatim>\<open>do_edit_draft\<close> the scoped lookup comes first: when it finds nothing the
  operation fails with \<open>NotFound\<close>, whether or not the dict would pass semantic
  validation. Whenever semantic validation of the dict fails, the state after the
  operation is the state before it (no field of the stored draft overwritten, nothing
  saved, no event sent), and if the lookup had found the draft the error of the operation
  is the validation error.
\<close>

theorem edit_lookup_precedes_validation:
  "(objects_get s did u = None \<longrightarrow> do_edit_draft env now did d u s = (Inl NotFound, s)) \<and>
   (\<forall>e. further_validated_draft_dict env now d u = Inl e \<longrightarrow>
      snd (do_edit_draft env now did d u s) = s \<and>
      (objects_get s did u \<noteq> None \<longrightarrow> fst (do_edit_draft env now did d u s) = Inl e))"
  by (auto simp: do_edit_draft_def split: option.splits)

text \<open>
  The theorem on a dict with a negative timestamp: for the absent id 9999 the error is
  \<open>NotFound\<close>, for draft 1 of \<open>alice\<close> it is \<open>InvalidTimestamp\<close>, and the state is
  unchanged both times.
\<close>

theorem edit_lookup_precedes_validation_witness:
  "do_edit_draft example_collab 0 9999 (unaddressed_draft (Some (IntTs (- 1)))) alice
      example_state = (Inl NotFound, example_state) \<and>
   do_edit_draft example_collab 0 1 (unaddressed_draft (Some (IntTs (- 1)))) alice
      example_state = (Inl InvalidTimestamp, example_state)"
proof -
  have "do_edit_draft example_collab 0 9999 (unaddressed_draft (Some (IntTs (- 1)))) alice
      example_state = (Inl NotFound, example_state)"
    using edit_lookup_precedes_validation
      [of example_state 9999 alice example_collab 0 "unaddressed_draft (Some (IntTs (- 1)))"]
      objects_get_example(3)
    by simp
  moreover have "do_edit_draft example_collab 0 1 (unaddressed_draft (Some (IntTs (- 1)))) alice
      example_state = (Inl InvalidTimestamp, example_state)"
    using edit_lookup_precedes_validation
      [of example_state 1 alice example_collab 0 "unaddressed_draft (Some (IntTs (- 1)))"]
      objects_get_example(1) fvdd_unaddressed_negative [of 0 alice]
    by (auto simp: prod_eq_iff)
  ultimately show ?thesis by simp
qed

section \<open>Creating no drafts\<close>

text \<open>
  Claim C10. \<^verbatim>\<open>do_create_drafts\<close> on the empty list of draft dicts does not fail. It
  returns the empty list, stores nothing, and sends one \<^verbatim>\<open>drafts/add\<close> event whose list of
  drafts is empty.
\<close>

theorem create_no_drafts:
  "do_create_drafts env clock [] u s =
     (Inr [], s\<lparr>events := events s @ [(realm u, DraftsAdd [], [user_id u])]\<rparr>)"
  by (simp add: do_create_drafts_def bulk_create_def send_event_def)

end
